theory Spec2Isabelle
  imports Main "HOL-Library.Word" "HOL-Library.AList"
begin

section \<open>Audio room session manager: identifiers and initiator election\<close>

text \<open>
  The audio room page keeps participant identifiers as JavaScript strings. A JavaScript
  string is a finite sequence of 16-bit code units, and the relational operator
  \<^verbatim>\<open><\<close> on two strings compares them code unit by code unit, a proper prefix
  being smaller than the string it starts.
\<close>

type_synonym jsstring = "16 word list"

fun str_lt :: "jsstring \<Rightarrow> jsstring \<Rightarrow> bool" where
  "str_lt [] [] = False"
| "str_lt [] (y # ys) = True"
| "str_lt (x # xs) [] = False"
| "str_lt (x # xs) (y # ys) = (if x = y then str_lt xs ys else x < y)"

text \<open>
  \<^verbatim>\<open>function isInitiator(myId: string, remoteId: string) { return myId < remoteId; }\<close>
\<close>

definition isInitiator :: "jsstring \<Rightarrow> jsstring \<Rightarrow> bool" where
  "isInitiator myId remoteId = str_lt myId remoteId"

section \<open>Data model of the page component\<close>

text \<open>\<^verbatim>\<open>type Role = 'speaker' | 'listener'\<close> and \<^verbatim>\<open>PresenceParticipant\<close>.\<close>

datatype role = Speaker | Listener

record PresenceParticipant =
  ap_profile_id :: jsstring
  role :: role

text \<open>
  Objects owned by the external collaborators (peer connections, channels, media tracks)
  are opaque to the page; the model names each of them by a number. A media stream is the
  list of its tracks, a negotiation payload is never inspected.
\<close>

type_synonym track = nat
type_synonym stream = "track list"
type_synonym payload = string

text \<open>
  A \<^verbatim>\<open>Peer.Instance\<close> made by \<^verbatim>\<open>createPeer(initiator, remoteId)\<close>:
  the object, the \<^verbatim>\<open>initiator\<close> option it was built with, and the remote id
  its listeners close over.
\<close>

record peer =
  p_handle :: nat
  p_initiator :: bool
  p_remoteId :: jsstring

datatype timer = Rebuild jsstring | MicControl

text \<open>
  Every call the page makes on a collaborator is appended to a log, in program order:
  the realtime channel, the peer library, the media devices, the \<^verbatim>\<open>posts\<close>
  table, \<^verbatim>\<open>alert\<close> and \<^verbatim>\<open>setTimeout\<close>. Console output is not
  modelled.
\<close>

datatype call =
    ChannelNew nat "jsstring option" "jsstring option"
  | ChannelSubscribe nat
  | ChannelUnsubscribe nat
  | ChannelTrack nat role
  | ChannelSend nat "jsstring option" payload
  | PeerNew nat bool jsstring
  | PeerDestroy nat
  | PeerSignal nat payload
  | PeerAddTrack nat track
  | TrackStop track
  | GetUserMedia
  | PostsUpdate bool "jsstring option" "jsstring option"
  | Alert string
  | SetTimeout nat timer

text \<open>
  The values one render of \<^verbatim>\<open>AudioRoomPage\<close> binds and that the functions
  declared in that render close over: the \<^verbatim>\<open>useState\<close> values, the route
  parameter and the build mode. \<^verbatim>\<open>null\<close> is \<open>None\<close>.
\<close>

record render =
  profileId :: "jsstring option"
  postOwnerId :: "jsstring option"
  postId :: "jsstring option"
  participants :: "PresenceParticipant list"
  myRole :: role
  isDev :: bool

text \<open>
  What outlives a render: the state React holds after the latest
  \<^verbatim>\<open>setParticipants\<close>, \<^verbatim>\<open>setMyRole\<close> and
  \<^verbatim>\<open>setRemoteStreams\<close>, the \<^verbatim>\<open>useRef\<close> cells, the
  allocator of collaborator objects and the call log. The two
  \<^verbatim>\<open>Record<string, _>\<close> objects are association lists in insertion order,
  which is the order \<^verbatim>\<open>Object.values\<close> enumerates keys that are not
  array indices; keys are taken not to name a property of \<^verbatim>\<open>Object.prototype\<close>.
\<close>

record session =
  st_participants :: "PresenceParticipant list"
  st_myRole :: role
  st_remoteStreams :: "(jsstring \<times> stream) list"
  localStreamRef :: "stream option"
  peersRef :: "(jsstring \<times> peer) list"
  channelRef :: "nat option"
  madeActiveOnceRef :: bool
  hmrDisposingRef :: bool
  nextObj :: nat
  calls :: "call list"

text \<open>
  The behaviour of the collaborators that the page reacts to: which of its calls throw
  (or return a promise that rejects), the stream
  \<^verbatim>\<open>getUserMedia\<close> resolves to, and the browser capabilities
  \<^verbatim>\<open>startMic\<close> probes.
\<close>

record env =
  throws :: "call \<Rightarrow> bool"
  userMedia :: stream
  hasWindow :: bool
  isSecureContext :: bool
  hasStd :: bool
  hasWebkit :: bool

definition session0 :: session where
  "session0 = \<lparr> st_participants = [], st_myRole = Listener, st_remoteStreams = [],
     localStreamRef = None, peersRef = [], channelRef = None, madeActiveOnceRef = False,
     hmrDisposingRef = False, nextObj = 0, calls = [] \<rparr>"

text \<open>JavaScript truthiness of a \<^verbatim>\<open>string | null\<close>: only a non-empty string.\<close>

definition truthy :: "jsstring option \<Rightarrow> bool" where
  "truthy v = (case v of None \<Rightarrow> False | Some s \<Rightarrow> s \<noteq> [])"

text \<open>\<^verbatim>\<open>const isOwner = !!profileId && !!postOwnerId && profileId === postOwnerId\<close>\<close>

definition isOwner :: "render \<Rightarrow> bool" where
  "isOwner r = (truthy (profileId r) \<and> truthy (postOwnerId r) \<and> profileId r = postOwnerId r)"

subsection \<open>Calls, exceptions and \<^verbatim>\<open>try\<close>\<close>

text \<open>
  A statement either completes (\<open>Inr\<close>) or throws (\<open>Inl\<close>), in both cases leaving
  a session. \<open>invoke\<close> makes one call on a collaborator; \<open>try_catch\<close> is
  \<^verbatim>\<open>try { body } catch { handler }\<close>.
\<close>

definition record_call :: "call \<Rightarrow> session \<Rightarrow> session" where
  "record_call c s = s\<lparr>calls := calls s @ [c]\<rparr>"

definition invoke :: "env \<Rightarrow> call \<Rightarrow> session \<Rightarrow> session + session" where
  "invoke e c s = (if throws e c then Inl (record_call c s) else Inr (record_call c s))"

definition try_catch ::
  "(session \<Rightarrow> session + session) \<Rightarrow> (session \<Rightarrow> session) \<Rightarrow> session \<Rightarrow> session" where
  "try_catch body handler s = (case body s of Inl s' \<Rightarrow> handler s' | Inr s' \<Rightarrow> s')"

text \<open>
  \<^verbatim>\<open>setRoomActive(active)\<close>: one update of \<^verbatim>\<open>audio_room_active\<close>
  scoped to the post id and the owner id, a failure caught and logged.
\<close>

definition setRoomActive :: "env \<Rightarrow> render \<Rightarrow> bool \<Rightarrow> session \<Rightarrow> session" where
  "setRoomActive e r active s =
     try_catch (invoke e (PostsUpdate active (postId r) (postOwnerId r))) id s"

subsection \<open>WebRTC helpers\<close>

text \<open>
  \<^verbatim>\<open>createPeer(initiator, remoteId)\<close> builds a new peer object and registers
  its listeners, which are the handlers \<open>on_peer_signal\<close>, \<open>attachRemote\<close> and
  \<open>on_pc_state\<close> below.
\<close>

definition createPeer :: "bool \<Rightarrow> jsstring \<Rightarrow> session \<Rightarrow> peer \<times> session" where
  "createPeer ini rid s =
     (\<lparr> p_handle = nextObj s, p_initiator = ini, p_remoteId = rid \<rparr>,
      record_call (PeerNew (nextObj s) ini rid) (s\<lparr>nextObj := Suc (nextObj s)\<rparr>))"

text \<open>\<^verbatim>\<open>stream.getTracks().forEach((t) => { try { peer.addTrack(t, stream); } catch {} })\<close>\<close>

definition attachLocalTracksToPeer :: "env \<Rightarrow> peer \<Rightarrow> stream \<Rightarrow> session \<Rightarrow> session" where
  "attachLocalTracksToPeer e p st s =
     fold (\<lambda>t. try_catch (invoke e (PeerAddTrack (p_handle p) t)) id) st s"

text \<open>The guard \<^verbatim>\<open>myRole === 'speaker' && localStreamRef.current\<close> of three call sites.\<close>

definition attach_if_speaker :: "env \<Rightarrow> render \<Rightarrow> peer \<Rightarrow> session \<Rightarrow> session" where
  "attach_if_speaker e r p s =
     (case localStreamRef s of
        Some st \<Rightarrow> if myRole r = Speaker then attachLocalTracksToPeer e p st s else s
      | None \<Rightarrow> s)"

text \<open>The peer's \<^verbatim>\<open>signal\<close> listener: broadcast through the channel, if any.\<close>

definition on_peer_signal :: "render \<Rightarrow> payload \<Rightarrow> session \<Rightarrow> session" where
  "on_peer_signal r sig s =
     (case channelRef s of
        None \<Rightarrow> s
      | Some ch \<Rightarrow> record_call (ChannelSend ch (profileId r) sig) s)"

text \<open>\<^verbatim>\<open>attachRemote\<close>: \<^verbatim>\<open>setRemoteStreams((prev) => ({ ...prev, [remoteId]: stream }))\<close>\<close>

definition attachRemote :: "jsstring \<Rightarrow> stream \<Rightarrow> session \<Rightarrow> session" where
  "attachRemote rid st s = s\<lparr>st_remoteStreams := AList.update rid st (st_remoteStreams s)\<rparr>"

text \<open>
  The listeners on the underlying connection, for
  \<^verbatim>\<open>iceconnectionstatechange\<close> and \<^verbatim>\<open>connectionstatechange\<close> alike.
\<close>

datatype rtcstate =
  RtcNew | RtcChecking | RtcConnecting | RtcConnected | RtcCompleted
  | RtcDisconnected | RtcFailed | RtcClosed

definition on_pc_state :: "jsstring \<Rightarrow> rtcstate \<Rightarrow> session \<Rightarrow> session" where
  "on_pc_state rid st s =
     (if st \<in> set [RtcFailed, RtcDisconnected]
      then record_call (SetTimeout 1500 (Rebuild rid)) s else s)"

definition attemptRebuild :: "env \<Rightarrow> render \<Rightarrow> jsstring \<Rightarrow> session \<Rightarrow> session" where
  "attemptRebuild e r rid s =
     (case map_of (peersRef s) rid of
        None \<Rightarrow> s
      | Some current \<Rightarrow>
          let s1 = try_catch (invoke e (PeerDestroy (p_handle current))) id s;
              s2 = s1\<lparr>peersRef := AList.delete rid (peersRef s1)\<rparr>;
              s3 = s2\<lparr>st_remoteStreams := AList.delete rid (st_remoteStreams s2)\<rparr>
          in (case profileId r of
                None \<Rightarrow> s3
              | Some me \<Rightarrow>
                  if me = [] then s3
                  else
                    let i = isInitiator me rid;
                        (fresh, s4) = createPeer i rid s3;
                        s5 = s4\<lparr>peersRef := AList.update rid fresh (peersRef s4)\<rparr>
                    in attach_if_speaker e r fresh s5))"

subsection \<open>Mic control\<close>

text \<open>
  \<^verbatim>\<open>startMic\<close> suspends once, at \<^verbatim>\<open>await getUM(...)\<close>. The part before
  the suspension either returns (\<open>Inl\<close>) or has called \<^verbatim>\<open>getUserMedia\<close> and
  waits (\<open>Inr\<close>); the part after it runs when the promise settles. \<open>startMic\<close> is the
  two in sequence, with nothing scheduled in between.
\<close>

definition startMic_begin :: "env \<Rightarrow> render \<Rightarrow> session \<Rightarrow> session + session" where
  "startMic_begin e r s =
     (if myRole r \<noteq> Speaker then Inl s
      else if localStreamRef s \<noteq> None then Inl s
      else if hasWindow e \<and> \<not> isSecureContext e
        then Inl (record_call (Alert ''Microphone requires HTTPS (use your Cloudflare tunnel).'') s)
      else if \<not> hasStd e \<and> \<not> hasWebkit e
        then Inl (record_call (Alert ''Mic API not available in this browser.'') s)
      else Inr (record_call GetUserMedia s))"

definition startMic_resume :: "env \<Rightarrow> session \<Rightarrow> session" where
  "startMic_resume e s =
     (if throws e GetUserMedia
      then record_call (Alert ''Please allow microphone access to speak.'') s
      else
        let s1 = s\<lparr>localStreamRef := Some (userMedia e)\<rparr>
        in fold (\<lambda>p. attachLocalTracksToPeer e p (userMedia e)) (map snd (peersRef s1)) s1)"

definition startMic :: "env \<Rightarrow> render \<Rightarrow> session \<Rightarrow> session" where
  "startMic e r s =
     (case startMic_begin e r s of Inl s' \<Rightarrow> s' | Inr s' \<Rightarrow> startMic_resume e s')"

text \<open>
  \<^verbatim>\<open>localStreamRef.current?.getTracks().forEach((t) => t.stop()); localStreamRef.current = null;\<close>
  Stopping a track is a browser primitive without a failure mode.
\<close>

definition stopMic :: "session \<Rightarrow> session" where
  "stopMic s =
     (case localStreamRef s of
        None \<Rightarrow> s\<lparr>localStreamRef := None\<rparr>
      | Some st \<Rightarrow> s\<lparr>calls := calls s @ map TrackStop st, localStreamRef := None\<rparr>)"

text \<open>The callback of the 150 ms timer that the peer-plan effect sets.\<close>

definition mic_control :: "env \<Rightarrow> render \<Rightarrow> session \<Rightarrow> session" where
  "mic_control e r s = (if myRole r = Speaker then startMic e r s else stopMic s)"

subsection \<open>Role toggles\<close>

text \<open>\<^verbatim>\<open>await channelRef.current?.track({ role })\<close>: the call, when a channel is held.\<close>

definition track_role :: "role \<Rightarrow> session \<Rightarrow> session" where
  "track_role rl s =
     (case channelRef s of None \<Rightarrow> s | Some ch \<Rightarrow> record_call (ChannelTrack ch rl) s)"

text \<open>
  Whether that call throws or its promise rejects. Without a channel nothing is called and
  the \<^verbatim>\<open>await\<close> goes on.
\<close>

definition track_rejects :: "env \<Rightarrow> role \<Rightarrow> session \<Rightarrow> bool" where
  "track_rejects e rl s =
     (case channelRef s of None \<Rightarrow> False | Some ch \<Rightarrow> throws e (ChannelTrack ch rl))"

text \<open>
  \<^verbatim>\<open>becomeSpeaker\<close>, \<^verbatim>\<open>becomeListener\<close> and \<^verbatim>\<open>endRoom\<close> suspend
  at the \<^verbatim>\<open>await\<close> of \<^verbatim>\<open>track\<close>; each is split there like
  \<open>startMic\<close>. In \<^verbatim>\<open>becomeSpeaker\<close> and \<^verbatim>\<open>becomeListener\<close> the
  \<^verbatim>\<open>await\<close> stands outside any \<^verbatim>\<open>try\<close>: when \<^verbatim>\<open>track\<close>
  rejects, the function ends there and the part after the \<^verbatim>\<open>await\<close> never runs.
\<close>

definition becomeSpeaker_begin :: "render \<Rightarrow> session \<Rightarrow> session + session" where
  "becomeSpeaker_begin r s =
     (if \<not> isOwner r
      then Inl (record_call (Alert ''Only the post owner can start the audio room.'') s)
      else Inr (track_role Speaker (s\<lparr>st_myRole := Speaker\<rparr>)))"

definition becomeSpeaker_resume :: "env \<Rightarrow> render \<Rightarrow> session \<Rightarrow> session" where
  "becomeSpeaker_resume e r s =
     (if \<not> madeActiveOnceRef s
      then setRoomActive e r True (s\<lparr>madeActiveOnceRef := True\<rparr>)
      else s)"

definition becomeSpeaker :: "env \<Rightarrow> render \<Rightarrow> session \<Rightarrow> session" where
  "becomeSpeaker e r s =
     (case becomeSpeaker_begin r s of
        Inl s' \<Rightarrow> s'
      | Inr s' \<Rightarrow> if track_rejects e Speaker s then s' else becomeSpeaker_resume e r s')"

definition becomeListener_begin :: "session \<Rightarrow> session" where
  "becomeListener_begin s = track_role Listener (s\<lparr>st_myRole := Listener\<rparr>)"

definition becomeListener_resume :: "env \<Rightarrow> render \<Rightarrow> session \<Rightarrow> session" where
  "becomeListener_resume e r s = (if isOwner r then setRoomActive e r False s else s)"

definition becomeListener :: "env \<Rightarrow> render \<Rightarrow> session \<Rightarrow> session" where
  "becomeListener e r s =
     (if track_rejects e Listener s then becomeListener_begin s
      else becomeListener_resume e r (becomeListener_begin s))"

text \<open>
  \<^verbatim>\<open>endRoom\<close> runs inside one \<^verbatim>\<open>try\<close>: when \<^verbatim>\<open>track\<close> throws or
  rejects, the rest of the block is skipped.
\<close>

definition endRoom_begin :: "render \<Rightarrow> session \<Rightarrow> session + session" where
  "endRoom_begin r s = (if \<not> isOwner r then Inl s else Inr (track_role Listener (stopMic s)))"

definition endRoom_resume :: "env \<Rightarrow> render \<Rightarrow> bool \<Rightarrow> session \<Rightarrow> session" where
  "endRoom_resume e r rejected s =
     (if rejected then s else setRoomActive e r False (s\<lparr>st_myRole := Listener\<rparr>))"

definition endRoom :: "env \<Rightarrow> render \<Rightarrow> session \<Rightarrow> session" where
  "endRoom e r s =
     (case endRoom_begin r s of
        Inl s' \<Rightarrow> s'
      | Inr s' \<Rightarrow> endRoom_resume e r (track_rejects e Listener s) s')"

subsection \<open>Presence and signaling wiring\<close>

text \<open>
  The wiring effect returns at once unless \<^verbatim>\<open>profileId\<close> and
  \<^verbatim>\<open>postId\<close> are truthy; otherwise it opens the room's channel, registers the
  three handlers below on it, subscribes and stores it in \<^verbatim>\<open>channelRef\<close>.
  The handlers therefore only ever run for a render that passes this guard.
\<close>

definition wired :: "render \<Rightarrow> bool" where
  "wired r = (truthy (profileId r) \<and> truthy (postId r))"

definition wiring_effect :: "render \<Rightarrow> session \<Rightarrow> session" where
  "wiring_effect r s =
     (if \<not> wired r then s
      else
        let ch = nextObj s;
            s1 = record_call (ChannelNew ch (postId r) (profileId r)) (s\<lparr>nextObj := Suc ch\<rparr>);
            s2 = record_call (ChannelSubscribe ch) s1
        in s2\<lparr>channelRef := Some ch\<rparr>)"

text \<open>
  The channel's presence state, one entry per key with the role of the key's first
  metadata record, in the order \<^verbatim>\<open>for (const uid in state)\<close> visits it.
\<close>

type_synonym presence = "(jsstring \<times> role) list"

definition on_presence_sync :: "render \<Rightarrow> presence \<Rightarrow> session \<Rightarrow> session" where
  "on_presence_sync r st s =
     (if \<not> wired r then s
      else s\<lparr>st_participants :=
             map (\<lambda>(uid, rl). \<lparr> ap_profile_id = uid,
                                 role = (if Some uid = profileId r then myRole r else rl) \<rparr>) st\<rparr>)"

text \<open>The handler of the broadcast event \<^verbatim>\<open>signal\<close>, with payload \<^verbatim>\<open>{ from, data }\<close>.\<close>

definition on_signal :: "env \<Rightarrow> render \<Rightarrow> jsstring \<Rightarrow> payload \<Rightarrow> session \<Rightarrow> session" where
  "on_signal e r frm data s =
     (case profileId r of
        None \<Rightarrow> s
      | Some me \<Rightarrow>
          if \<not> wired r then s
          else if frm = me then s
          else
            let (p, s1) =
                  (case map_of (peersRef s) frm of
                     Some p \<Rightarrow> (p, s)
                   | None \<Rightarrow>
                       let i = isInitiator me frm;
                           (p, s') = createPeer (i \<and> False) frm s;
                           s'' = s'\<lparr>peersRef := AList.update frm p (peersRef s')\<rparr>
                       in (p, attach_if_speaker e r p s''))
            in record_call (PeerSignal (p_handle p) data) s1)"

text \<open>
  The callback of \<^verbatim>\<open>channel.subscribe\<close>, for the channel \<open>ch\<close> of its effect.
  It suspends at \<^verbatim>\<open>await channel.track({ role: initial })\<close>, outside any
  \<^verbatim>\<open>try\<close>: when \<^verbatim>\<open>track\<close> rejects, the callback ends there.
\<close>

datatype substatus = SUBSCRIBED | TIMED_OUT | CLOSED | CHANNEL_ERROR

definition initial_role :: "render \<Rightarrow> role" where
  "initial_role r = (if isOwner r then Speaker else Listener)"

definition on_subscribe_begin ::
  "render \<Rightarrow> nat \<Rightarrow> substatus \<Rightarrow> presence \<Rightarrow> session \<Rightarrow> session + session" where
  "on_subscribe_begin r ch status st s =
     (case profileId r of
        None \<Rightarrow> Inl s
      | Some me \<Rightarrow>
          if \<not> wired r then Inl s
          else if status \<noteq> SUBSCRIBED then Inl s
          else if map_of st me \<noteq> None then Inl s
          else Inr (record_call (ChannelTrack ch (initial_role r))
                      (s\<lparr>st_myRole := initial_role r\<rparr>)))"

definition on_subscribe_resume :: "env \<Rightarrow> render \<Rightarrow> session \<Rightarrow> session" where
  "on_subscribe_resume e r s =
     (if initial_role r = Speaker \<and> isOwner r \<and> \<not> madeActiveOnceRef s
      then setRoomActive e r True (s\<lparr>madeActiveOnceRef := True\<rparr>)
      else s)"

definition on_subscribe ::
  "env \<Rightarrow> render \<Rightarrow> nat \<Rightarrow> substatus \<Rightarrow> presence \<Rightarrow> session \<Rightarrow> session" where
  "on_subscribe e r ch status st s =
     (case on_subscribe_begin r ch status st s of
        Inl s' \<Rightarrow> s'
      | Inr s' \<Rightarrow>
          if throws e (ChannelTrack ch (initial_role r)) then s'
          else on_subscribe_resume e r s')"

text \<open>The cleanup the wiring effect returns, for its channel \<open>ch\<close>.\<close>

definition cleanup :: "env \<Rightarrow> render \<Rightarrow> nat \<Rightarrow> session \<Rightarrow> session" where
  "cleanup e r ch s =
     (if isDev r \<and> hmrDisposingRef s then s
      else
        let s1 = try_catch (invoke e (ChannelUnsubscribe ch)) id s;
            s2 = s1\<lparr>channelRef := None\<rparr>;
            s3 = fold (\<lambda>p. try_catch (invoke e (PeerDestroy (p_handle p))) id)
                   (map snd (peersRef s2)) s2;
            s4 = s3\<lparr>peersRef := []\<rparr>;
            s5 = stopMic s4;
            s6 = s5\<lparr>st_remoteStreams := []\<rparr>
        in if isOwner r then setRoomActive e r False s6 else s6)"

text \<open>The status handler of the hot-reload guard.\<close>

datatype hmrstatus = HmrDispose | HmrApply | HmrIdle | HmrOther

definition on_hmr_status :: "hmrstatus \<Rightarrow> session \<Rightarrow> session" where
  "on_hmr_status status s =
     (let s1 = (if status = HmrDispose then s\<lparr>hmrDisposingRef := True\<rparr> else s)
      in if status = HmrApply \<or> status = HmrIdle then s1\<lparr>hmrDisposingRef := False\<rparr> else s1)"

subsection \<open>The peer-plan effect\<close>

definition plan_candidates :: "render \<Rightarrow> jsstring \<Rightarrow> PresenceParticipant list" where
  "plan_candidates r me =
     filter (\<lambda>p. myRole r = Speaker \<or> role p = Speaker)
       (filter (\<lambda>p. ap_profile_id p \<noteq> me) (participants r))"

definition plan_peer :: "env \<Rightarrow> render \<Rightarrow> jsstring \<Rightarrow> PresenceParticipant \<Rightarrow> session \<Rightarrow> session" where
  "plan_peer e r me p s =
     (let rid = ap_profile_id p
      in case map_of (peersRef s) rid of
           Some _ \<Rightarrow> s
         | None \<Rightarrow>
             let i = isInitiator me rid;
                 (fresh, s1) = createPeer i rid s;
                 s2 = s1\<lparr>peersRef := AList.update rid fresh (peersRef s1)\<rparr>
             in attach_if_speaker e r fresh s2)"

definition peer_plan :: "env \<Rightarrow> render \<Rightarrow> session \<Rightarrow> session" where
  "peer_plan e r s =
     (case profileId r of
        None \<Rightarrow> s
      | Some me \<Rightarrow>
          if me = [] then s
          else record_call (SetTimeout 150 MicControl)
                 (fold (plan_peer e r me) (plan_candidates r me) s))"

subsection \<open>A session as a sequence of callbacks\<close>

text \<open>
  The page runs on one event loop: between two suspension points a callback runs alone.
  A session is a sequence of such runs, each with the render whose closure it belongs to.
  The continuation of an \<^verbatim>\<open>async\<close> function after its \<^verbatim>\<open>await\<close> is an
  event of its own, so that other callbacks may run in between and a continuation may
  never come.
\<close>

datatype event =
    Wire render
  | PresenceSync render presence
  | Signal render jsstring payload
  | SubscribeBegin render nat substatus presence
  | SubscribeResume render
  | Cleanup render nat
  | HmrStatus hmrstatus
  | PeerPlan render
  | MicTimer render
  | MicResume
  | PeerSignalOut render payload
  | RemoteStream jsstring stream
  | PcState jsstring rtcstate
  | RebuildTimer render jsstring
  | SpeakerBegin render
  | SpeakerResume render
  | ListenerBegin
  | ListenerResume render
  | EndRoomBegin render
  | EndRoomResume render bool

definition settle :: "session + session \<Rightarrow> session" where
  "settle x = (case x of Inl s \<Rightarrow> s | Inr s \<Rightarrow> s)"

fun fire :: "env \<Rightarrow> event \<Rightarrow> session \<Rightarrow> session" where
  "fire e (Wire r) s = wiring_effect r s"
| "fire e (PresenceSync r st) s = on_presence_sync r st s"
| "fire e (Signal r frm data) s = on_signal e r frm data s"
| "fire e (SubscribeBegin r ch status st) s = settle (on_subscribe_begin r ch status st s)"
| "fire e (SubscribeResume r) s = on_subscribe_resume e r s"
| "fire e (Cleanup r ch) s = cleanup e r ch s"
| "fire e (HmrStatus status) s = on_hmr_status status s"
| "fire e (PeerPlan r) s = peer_plan e r s"
| "fire e (MicTimer r) s =
     (if myRole r = Speaker then settle (startMic_begin e r s) else stopMic s)"
| "fire e MicResume s = startMic_resume e s"
| "fire e (PeerSignalOut r sig) s = on_peer_signal r sig s"
| "fire e (RemoteStream rid st) s = attachRemote rid st s"
| "fire e (PcState rid st) s = on_pc_state rid st s"
| "fire e (RebuildTimer r rid) s = attemptRebuild e r rid s"
| "fire e (SpeakerBegin r) s = settle (becomeSpeaker_begin r s)"
| "fire e (SpeakerResume r) s = becomeSpeaker_resume e r s"
| "fire e ListenerBegin s = becomeListener_begin s"
| "fire e (ListenerResume r) s = becomeListener_resume e r s"
| "fire e (EndRoomBegin r) s = settle (endRoom_begin r s)"
| "fire e (EndRoomResume r rejected) s = endRoom_resume e r rejected s"

definition run :: "env \<Rightarrow> event list \<Rightarrow> session \<Rightarrow> session" where
  "run e evs s = fold (fire e) evs s"

text \<open>The writes of \<^verbatim>\<open>audio_room_active: true\<close> a session has issued.\<close>

fun is_true_write :: "call \<Rightarrow> bool" where
  "is_true_write (PostsUpdate active _ _) = active"
| "is_true_write _ = False"

definition true_writes :: "session \<Rightarrow> nat" where
  "true_writes s = length (filter is_true_write (calls s))"


text \<open>
  The calls by which a peer object \<open>h\<close> receives the tracks of the held local stream,
  when the render's role is speaker.
\<close>

definition attach_calls :: "render \<Rightarrow> session \<Rightarrow> nat \<Rightarrow> call list" where
  "attach_calls r s h =
     (case localStreamRef s of
        Some st \<Rightarrow> if myRole r = Speaker then map (PeerAddTrack h) st else []
      | None \<Rightarrow> [])"

section \<open>Sample environments, renders and sessions\<close>

text \<open>
  An environment in which every guarded call throws and one in which none does; the
  render of the room owner \<open>a\<close>, as listener and as speaker, and of a guest \<open>b\<close> who sees a second listener \<open>c\<close>;
  a session of a speaker who holds a two-track stream and links to \<open>b\<close> and \<open>c\<close>.
\<close>

definition loud_env :: env where
  "loud_env = \<lparr> throws = (\<lambda>c. True), userMedia = [7], hasWindow = True,
     isSecureContext = True, hasStd = True, hasWebkit = False \<rparr>"

definition quiet_env :: env where
  "quiet_env = \<lparr> throws = (\<lambda>c. False), userMedia = [7], hasWindow = True,
     isSecureContext = True, hasStd = True, hasWebkit = False \<rparr>"

definition owner_render :: render where
  "owner_render = \<lparr> profileId = Some [0x61], postOwnerId = Some [0x61], postId = Some [0x70],
     participants = [], myRole = Listener, isDev = False \<rparr>"

definition speaker_render :: render where
  "speaker_render = owner_render\<lparr>myRole := Speaker\<rparr>"

definition guest_render :: render where
  "guest_render = \<lparr> profileId = Some [0x62], postOwnerId = Some [0x61], postId = Some [0x70],
     participants = [\<lparr> ap_profile_id = [0x62], role = Listener \<rparr>,
                     \<lparr> ap_profile_id = [0x63], role = Listener \<rparr>],
     myRole = Listener, isDev = False \<rparr>"

definition busy_session :: session where
  "busy_session = \<lparr> st_participants = [], st_myRole = Speaker,
     st_remoteStreams = [([0x62], [4])],
     localStreamRef = Some [7, 8],
     peersRef = [([0x62], \<lparr> p_handle = 1, p_initiator = True, p_remoteId = [0x62] \<rparr>),
                 ([0x63], \<lparr> p_handle = 2, p_initiator = True, p_remoteId = [0x63] \<rparr>)],
     channelRef = Some 0, madeActiveOnceRef = True, hmrDisposingRef = False, nextObj = 3,
     calls = [] \<rparr>"


section \<open>Properties of the string order\<close>

lemma str_lt_irrefl: "\<not> str_lt a a"
  by (induction a) auto

lemma str_lt_total: "a \<noteq> b \<Longrightarrow> str_lt a b \<or> str_lt b a"
  by (induction a b rule: str_lt.induct) auto

lemma str_lt_asym: "str_lt a b \<Longrightarrow> \<not> str_lt b a"
  by (induction a b rule: str_lt.induct) (auto split: if_splits)

section \<open>Initiator election\<close>

text \<open>
  Claim C1. For two distinct participant identifiers the election is antisymmetric:
  the local side is the initiator exactly when the remote side, computing the same
  comparison with the arguments swapped, is not. Both ends therefore agree on one
  initiator.
\<close>

theorem isInitiator_antisym:
  "a \<noteq> b \<Longrightarrow> isInitiator a b = (\<not> isInitiator b a)"
  unfolding isInitiator_def using str_lt_total [of a b] str_lt_asym [of a b] by blast

theorem isInitiator_antisym_witness:
  "[0x61, 0x31] \<noteq> [0x61, 0x32 :: 16 word]
   \<and> isInitiator [0x61, 0x31] [0x61, 0x32] = (\<not> isInitiator [0x61, 0x32] [0x61, 0x31])
   \<and> isInitiator [0x61, 0x31] [0x61, 0x32]"
  using isInitiator_antisym [of "[0x61, 0x31]" "[0x61, 0x32]"]
  by (simp add: isInitiator_def)

section \<open>Guarded calls\<close>

text \<open>
  A call wrapped in \<^verbatim>\<open>try { ... } catch {}\<close> leaves the same session whether it
  throws or not: the call has been made, and control goes on.
\<close>

lemma try_invoke: "try_catch (invoke e c) id s = record_call c s"
  by (simp add: try_catch_def invoke_def)

lemma fold_try_invoke:
  "fold (\<lambda>x. try_catch (invoke e (f x)) id) xs s = s\<lparr>calls := calls s @ map f xs\<rparr>"
  by (induction xs arbitrary: s) (simp_all add: try_invoke record_call_def)

lemma attachLocalTracksToPeer_calls:
  "attachLocalTracksToPeer e p st s = s\<lparr>calls := calls s @ map (PeerAddTrack (p_handle p)) st\<rparr>"
  by (simp add: attachLocalTracksToPeer_def fold_try_invoke)

lemma attach_if_speaker_calls:
  "attach_if_speaker e r p s = s\<lparr>calls := calls s @ attach_calls r s (p_handle p)\<rparr>"
  by (simp add: attach_if_speaker_def attach_calls_def attachLocalTracksToPeer_calls
      split: option.splits)

lemma setRoomActive_eq:
  "setRoomActive e r a s = record_call (PostsUpdate a (postId r) (postOwnerId r)) s"
  by (simp add: setRoomActive_def try_invoke)

section \<open>Teardown\<close>

lemma cleanup_eq:
  "\<not> (isDev r \<and> hmrDisposingRef s) \<Longrightarrow>
   cleanup e r ch s =
     s\<lparr> channelRef := None, peersRef := [], localStreamRef := None, st_remoteStreams := [],
        calls := calls s @ [ChannelUnsubscribe ch]
                 @ map (\<lambda>p. PeerDestroy (p_handle p)) (map snd (peersRef s))
                 @ (case localStreamRef s of None \<Rightarrow> [] | Some st \<Rightarrow> map TrackStop st)
                 @ (if isOwner r then [PostsUpdate False (postId r) (postOwnerId r)] else []) \<rparr>"
  by (auto simp add: cleanup_def Let_def try_invoke fold_try_invoke record_call_def stopMic_def
      setRoomActive_eq split: option.splits)

text \<open>
  Claim C8. Unless the hot-reload guard holds (development build, module being disposed),
  the cleanup of the wiring effect calls \<^verbatim>\<open>unsubscribe\<close> on the channel, calls
  \<^verbatim>\<open>destroy\<close> on every peer of the pool and empties the pool, stops every track of
  the held stream and releases it, and clears the remote streams; when the render is the
  owner's it then writes the active flag false. This holds in every environment, so also
  when \<^verbatim>\<open>unsubscribe\<close> and every \<^verbatim>\<open>destroy\<close> throw. Under the
  hot-reload guard the cleanup does nothing.
\<close>

theorem cleanup_completes:
  "(\<not> (isDev r \<and> hmrDisposingRef s) \<longrightarrow>
      channelRef (cleanup e r ch s) = None
    \<and> peersRef (cleanup e r ch s) = []
    \<and> localStreamRef (cleanup e r ch s) = None
    \<and> st_remoteStreams (cleanup e r ch s) = []
    \<and> calls (cleanup e r ch s) =
        calls s @ [ChannelUnsubscribe ch]
        @ map (\<lambda>p. PeerDestroy (p_handle p)) (map snd (peersRef s))
        @ (case localStreamRef s of None \<Rightarrow> [] | Some st \<Rightarrow> map TrackStop st)
        @ (if isOwner r then [PostsUpdate False (postId r) (postOwnerId r)] else []))
   \<and> (isDev r \<and> hmrDisposingRef s \<longrightarrow> cleanup e r ch s = s)"
proof (intro conjI impI)
  assume "isDev r \<and> hmrDisposingRef s"
  then show "cleanup e r ch s = s" by (simp add: cleanup_def)
qed (simp_all add: cleanup_eq)

theorem cleanup_completes_witness:
  "\<not> (isDev owner_render \<and> hmrDisposingRef busy_session)
   \<and> throws loud_env (ChannelUnsubscribe 0) \<and> throws loud_env (PeerDestroy 1)
   \<and> channelRef (cleanup loud_env owner_render 0 busy_session) = None
   \<and> peersRef (cleanup loud_env owner_render 0 busy_session) = []
   \<and> localStreamRef (cleanup loud_env owner_render 0 busy_session) = None
   \<and> st_remoteStreams (cleanup loud_env owner_render 0 busy_session) = []
   \<and> calls (cleanup loud_env owner_render 0 busy_session) =
       [ChannelUnsubscribe 0, PeerDestroy 1, PeerDestroy 2, TrackStop 7, TrackStop 8,
        PostsUpdate False (Some [0x70]) (Some [0x61])]"
  using cleanup_completes [of owner_render busy_session loud_env 0]
  by (simp add: owner_render_def busy_session_def loud_env_def isOwner_def truthy_def)

section \<open>Rebuild timers\<close>

lemma attemptRebuild_absent:
  "map_of (peersRef s) rid = None \<Longrightarrow> attemptRebuild e r rid s = s"
  by (simp add: attemptRebuild_def)

lemma run_rebuild_empty:
  "peersRef s = [] \<Longrightarrow> run e (map (\<lambda>(r, rid). RebuildTimer r rid) ts) s = s"
  by (induction ts) (auto simp add: run_def attemptRebuild_absent)

text \<open>
  Claim C10. For a remote id without a pool entry \<^verbatim>\<open>attemptRebuild\<close> returns the
  session as it found it: no peer is created, no remote stream touched. So after a
  teardown, which empties the pool, any number of rebuild timers firing, for any remote
  ids and from any renders, leave the session exactly as the teardown left it, with an
  empty pool.
\<close>

theorem rebuild_without_entry:
  "(map_of (peersRef s) rid = None \<longrightarrow> attemptRebuild e r rid s = s)
   \<and> (\<not> (isDev r0 \<and> hmrDisposingRef s) \<longrightarrow>
        run e (map (\<lambda>(r, rid). RebuildTimer r rid) ts) (cleanup e r0 ch s) = cleanup e r0 ch s
      \<and> peersRef (run e (map (\<lambda>(r, rid). RebuildTimer r rid) ts) (cleanup e r0 ch s)) = [])"
proof (intro conjI impI)
  assume h: "\<not> (isDev r0 \<and> hmrDisposingRef s)"
  then have p: "peersRef (cleanup e r0 ch s) = []" by (simp add: cleanup_eq)
  then show "run e (map (\<lambda>(r, rid). RebuildTimer r rid) ts) (cleanup e r0 ch s) = cleanup e r0 ch s"
    by (rule run_rebuild_empty)
  then show "peersRef (run e (map (\<lambda>(r, rid). RebuildTimer r rid) ts) (cleanup e r0 ch s)) = []"
    using p by simp
qed (simp add: attemptRebuild_absent)

theorem rebuild_without_entry_witness:
  "map_of (peersRef busy_session) [0x64] = None
   \<and> attemptRebuild quiet_env owner_render [0x64] busy_session = busy_session
   \<and> \<not> (isDev owner_render \<and> hmrDisposingRef busy_session)
   \<and> peersRef (run quiet_env [RebuildTimer owner_render [0x62], RebuildTimer owner_render [0x63]]
        (cleanup quiet_env owner_render 0 busy_session)) = []"
proof -
  have a: "map_of (peersRef busy_session) [0x64] = None"
    by (simp add: busy_session_def)
  have h: "\<not> (isDev owner_render \<and> hmrDisposingRef busy_session)"
    by (simp add: owner_render_def)
  show ?thesis
    using a h rebuild_without_entry [of busy_session "[0x64]" quiet_env owner_render owner_render
      "[(owner_render, [0x62]), (owner_render, [0x63])]" 0]
    by (simp add: cleanup_eq)
qed

section \<open>Mic control\<close>

lemma startMic_not_speaker: "myRole r \<noteq> Speaker \<Longrightarrow> startMic e r s = s"
  by (simp add: startMic_def startMic_begin_def)

lemma startMic_held: "localStreamRef s \<noteq> None \<Longrightarrow> startMic e r s = s"
  by (simp add: startMic_def startMic_begin_def)

text \<open>
  Claim C5. \<^verbatim>\<open>startMic\<close> changes nothing when the role is not speaker, and nothing
  when a stream is already held. \<^verbatim>\<open>stopMic\<close> always returns: it stops every track
  of the held stream, if there is one, and leaves no stream held; a second
  \<^verbatim>\<open>stopMic\<close> changes nothing more. Hence \<^verbatim>\<open>stopMic\<close> followed by
  \<^verbatim>\<open>startMic\<close> under a listener role leaves no local stream.
\<close>

theorem mic_contract:
  "(myRole r \<noteq> Speaker \<longrightarrow> startMic e r s = s)
   \<and> (localStreamRef s \<noteq> None \<longrightarrow> startMic e r s = s)
   \<and> localStreamRef (stopMic s) = None
   \<and> calls (stopMic s) =
       calls s @ (case localStreamRef s of None \<Rightarrow> [] | Some st \<Rightarrow> map TrackStop st)
   \<and> stopMic (stopMic s) = stopMic s
   \<and> (myRole r \<noteq> Speaker \<longrightarrow> localStreamRef (startMic e r (stopMic s)) = None)"
  by (auto simp add: startMic_not_speaker startMic_held stopMic_def split: option.splits)

theorem mic_contract_witness:
  "myRole guest_render \<noteq> Speaker
   \<and> localStreamRef busy_session \<noteq> None
   \<and> startMic quiet_env guest_render busy_session = busy_session
   \<and> calls (stopMic busy_session) = [TrackStop 7, TrackStop 8]
   \<and> localStreamRef (startMic quiet_env guest_render (stopMic busy_session)) = None
   \<and> localStreamRef (startMic quiet_env speaker_render session0) = Some [7]
   \<and> startMic quiet_env speaker_render (startMic quiet_env speaker_render session0)
       = startMic quiet_env speaker_render session0"
proof -
  have a: "myRole guest_render \<noteq> Speaker" by (simp add: guest_render_def)
  have b: "localStreamRef busy_session = Some [7, 8]" "calls busy_session = []"
    by (simp_all add: busy_session_def)
  have c: "localStreamRef (startMic quiet_env speaker_render session0) = Some [7]"
    by (simp add: startMic_def startMic_begin_def startMic_resume_def speaker_render_def
        owner_render_def quiet_env_def session0_def record_call_def)
  show ?thesis
    using a b c mic_contract [of guest_render quiet_env busy_session]
      mic_contract [of speaker_render quiet_env "startMic quiet_env speaker_render session0"]
    by simp
qed

section \<open>Routing of incoming signals\<close>

text \<open>
  Claim C9. In a render whose handlers are registered, a signal whose sender is the local
  participant is dropped and the session is unchanged. A signal from anyone else goes to
  the pool entry of the sender: if there is one, it alone receives the payload and
  nothing else changes; if there is none, a new peer is built with
  \<^verbatim>\<open>initiator: false\<close>, stored under the sender's id, given the local tracks when
  the local side is a speaker holding a stream, and then receives the payload.
\<close>

theorem signal_routing:
  assumes "wired r" and "profileId r = Some me"
  shows
  "(frm = me \<longrightarrow> on_signal e r frm data s = s)
   \<and> (frm \<noteq> me \<longrightarrow>
        (case map_of (peersRef s) frm of
           Some p \<Rightarrow> on_signal e r frm data s = record_call (PeerSignal (p_handle p) data) s
         | None \<Rightarrow>
             map_of (peersRef (on_signal e r frm data s)) frm =
               Some \<lparr> p_handle = nextObj s, p_initiator = False, p_remoteId = frm \<rparr>
           \<and> calls (on_signal e r frm data s) =
               calls s @ [PeerNew (nextObj s) False frm] @ attach_calls r s (nextObj s)
               @ [PeerSignal (nextObj s) data]))"
  using assms
  by (auto simp add: on_signal_def createPeer_def attach_if_speaker_calls record_call_def
      attach_calls_def update_conv' Let_def split: option.splits)

theorem signal_routing_witness:
  "wired guest_render \<and> profileId guest_render = Some [0x62]
   \<and> on_signal quiet_env guest_render [0x62] ''offer'' session0 = session0
   \<and> map_of (peersRef (on_signal quiet_env guest_render [0x63] ''offer'' session0)) [0x63] =
       Some \<lparr> p_handle = 0, p_initiator = False, p_remoteId = [0x63] \<rparr>
   \<and> calls (on_signal quiet_env guest_render [0x63] ''offer'' session0) =
       [PeerNew 0 False [0x63], PeerSignal 0 ''offer'']
   \<and> calls (on_signal quiet_env guest_render [0x63] ''answer'' busy_session) =
       [PeerSignal 2 ''answer'']"
proof -
  have w: "wired guest_render" "profileId guest_render = Some [0x62]"
    by (simp_all add: guest_render_def wired_def truthy_def)
  have m: "map_of (peersRef session0) [0x63] = None" "calls session0 = []" "nextObj session0 = 0"
    "map_of (peersRef busy_session) [0x63]
       = Some \<lparr> p_handle = 2, p_initiator = True, p_remoteId = [0x63] \<rparr>"
    "calls busy_session = []" "localStreamRef session0 = None"
    by (simp_all add: session0_def busy_session_def)
  show ?thesis
    using w m
      signal_routing [OF w, of "[0x62]" quiet_env "''offer''" session0]
      signal_routing [OF w, of "[0x63]" quiet_env "''offer''" session0]
      signal_routing [OF w, of "[0x63]" quiet_env "''answer''" busy_session]
    by (simp add: attach_calls_def record_call_def)
qed

section \<open>Rebuild of a failed link\<close>

lemma filter_update_absent:
  "k \<notin> fst ` set al \<Longrightarrow> filter (\<lambda>kv. fst kv = k) (AList.update k v al) = [(k, v)]"
  by (induction al) auto

lemma one_entry_after_replace:
  "filter (\<lambda>kv. fst kv = k) (AList.update k v (AList.delete k al)) = [(k, v)]"
  by (rule filter_update_absent) (rule delete_notin_dom)

text \<open>
  Claim C4. When the ICE or the connection state of a peer becomes failed or
  disconnected, its listener sets a timer of 1500 ms for \<^verbatim>\<open>attemptRebuild\<close>.
  When that runs while the remote id still has its pool entry, in a render that knows the
  local id, it calls \<^verbatim>\<open>destroy\<close> on the old peer, removes the remote stream of that
  id, and builds a new peer whose \<^verbatim>\<open>initiator\<close> option is
  \<open>isInitiator me rid\<close>; afterwards the pool holds exactly one entry for that id, the
  new peer, and every other entry is as before.
\<close>

theorem rebuild_replaces_link:
  assumes "st = RtcFailed \<or> st = RtcDisconnected"
    and "map_of (peersRef s) rid = Some old"
    and "profileId r = Some me" and "me \<noteq> []"
  shows
  "on_pc_state rid st s = record_call (SetTimeout 1500 (Rebuild rid)) s
   \<and> calls (attemptRebuild e r rid s) =
       calls s @ [PeerDestroy (p_handle old), PeerNew (nextObj s) (isInitiator me rid) rid]
       @ attach_calls r s (nextObj s)
   \<and> map_of (st_remoteStreams (attemptRebuild e r rid s)) rid = None
   \<and> filter (\<lambda>kv. fst kv = rid) (peersRef (attemptRebuild e r rid s)) =
       [(rid, \<lparr> p_handle = nextObj s, p_initiator = isInitiator me rid, p_remoteId = rid \<rparr>)]
   \<and> (\<forall>k. k \<noteq> rid \<longrightarrow> map_of (peersRef (attemptRebuild e r rid s)) k = map_of (peersRef s) k)"
proof (intro conjI)
  show "on_pc_state rid st s = record_call (SetTimeout 1500 (Rebuild rid)) s"
    using assms(1) by (auto simp add: on_pc_state_def)
  have eq: "attemptRebuild e r rid s =
     s\<lparr> peersRef := AList.update rid
            \<lparr> p_handle = nextObj s, p_initiator = isInitiator me rid, p_remoteId = rid \<rparr>
            (AList.delete rid (peersRef s)),
        st_remoteStreams := AList.delete rid (st_remoteStreams s),
        nextObj := Suc (nextObj s),
        calls := calls s @ [PeerDestroy (p_handle old), PeerNew (nextObj s) (isInitiator me rid) rid]
                 @ attach_calls r s (nextObj s) \<rparr>"
    using assms(2-4)
    by (auto simp add: attemptRebuild_def createPeer_def attach_if_speaker_calls record_call_def
        try_invoke attach_calls_def Let_def split: option.splits)
  show "calls (attemptRebuild e r rid s) =
       calls s @ [PeerDestroy (p_handle old), PeerNew (nextObj s) (isInitiator me rid) rid]
       @ attach_calls r s (nextObj s)"
    by (simp add: eq)
  show "map_of (st_remoteStreams (attemptRebuild e r rid s)) rid = None"
    by (simp add: eq delete_conv')
  show "filter (\<lambda>kv. fst kv = rid) (peersRef (attemptRebuild e r rid s)) =
       [(rid, \<lparr> p_handle = nextObj s, p_initiator = isInitiator me rid, p_remoteId = rid \<rparr>)]"
    by (simp add: eq one_entry_after_replace)
  show "\<forall>k. k \<noteq> rid \<longrightarrow> map_of (peersRef (attemptRebuild e r rid s)) k = map_of (peersRef s) k"
    by (simp add: eq update_conv' delete_conv')
qed

theorem rebuild_replaces_link_witness:
  "map_of (peersRef busy_session) [0x62]
     = Some \<lparr> p_handle = 1, p_initiator = True, p_remoteId = [0x62] \<rparr>
   \<and> profileId owner_render = Some [0x61]
   \<and> on_pc_state [0x62] RtcFailed busy_session
       = record_call (SetTimeout 1500 (Rebuild [0x62])) busy_session
   \<and> calls (attemptRebuild loud_env owner_render [0x62] busy_session) =
       [PeerDestroy 1, PeerNew 3 True [0x62]]
   \<and> map_of (st_remoteStreams (attemptRebuild loud_env owner_render [0x62] busy_session)) [0x62]
       = None
   \<and> filter (\<lambda>kv. fst kv = [0x62]) (peersRef (attemptRebuild loud_env owner_render [0x62] busy_session))
       = [([0x62], \<lparr> p_handle = 3, p_initiator = True, p_remoteId = [0x62] \<rparr>)]"
proof -
  have a: "map_of (peersRef busy_session) [0x62]
     = Some \<lparr> p_handle = 1, p_initiator = True, p_remoteId = [0x62] \<rparr>"
    by (simp add: busy_session_def)
  have b: "profileId owner_render = Some [0x61]" "[0x61] \<noteq> ([] :: jsstring)"
    by (simp_all add: owner_render_def)
  have c: "calls busy_session = []" "nextObj busy_session = 3"
    "attach_calls owner_render busy_session 3 = []" "isInitiator [0x61] [0x62]"
    by (simp_all add: busy_session_def owner_render_def attach_calls_def isInitiator_def)
  show ?thesis
    using a b c rebuild_replaces_link [OF _ a b, of RtcFailed loud_env]
    by simp
qed

section \<open>The active flag is written true once\<close>

lemma tw_calls_append:
  "true_writes (s\<lparr>calls := calls s @ cs\<rparr>) = true_writes s + length (filter is_true_write cs)"
  by (simp add: true_writes_def)






























section \<open>Which links the page creates\<close>

lemma on_signal_entry:
  "wired r \<Longrightarrow> profileId r = Some me \<Longrightarrow> frm \<noteq> me \<Longrightarrow>
   map_of (peersRef (on_signal e r frm data s)) frm \<noteq> None"
  by (auto simp add: on_signal_def createPeer_def attach_if_speaker_calls record_call_def
      update_conv' Let_def split: option.splits)

lemma has_entry: "(map_of al k \<noteq> None) = (k \<in> fst ` set al)"
  by (simp add: map_of_eq_None_iff)

lemma plan_peer_keys:
  "fst ` set (peersRef (plan_peer e r me p s)) = insert (ap_profile_id p) (fst ` set (peersRef s))"
proof (cases "map_of (peersRef s) (ap_profile_id p)")
  case None
  then show ?thesis
    by (simp add: plan_peer_def createPeer_def attach_if_speaker_calls record_call_def
        dom_update Let_def)
next
  case (Some a)
  then have "ap_profile_id p \<in> fst ` set (peersRef s)"
    using has_entry [of "peersRef s" "ap_profile_id p"] by simp
  with Some show ?thesis
    by (auto simp add: plan_peer_def Let_def)
qed

lemma fold_plan_peer_keys:
  "fst ` set (peersRef (fold (plan_peer e r me) ps s))
     = fst ` set (peersRef s) \<union> ap_profile_id ` set ps"
  by (induction ps arbitrary: s) (auto simp add: plan_peer_keys)

lemma peer_plan_keys:
  "profileId r = Some me \<Longrightarrow> me \<noteq> [] \<Longrightarrow>
   fst ` set (peersRef (peer_plan e r s))
     = fst ` set (peersRef s) \<union> ap_profile_id ` set (plan_candidates r me)"
  by (simp add: peer_plan_def fold_plan_peer_keys record_call_def)

text \<open>
  Claim C2 fails as stated. A signal from a listener reaches a listener: the guest \<open>b\<close>, a listener who lists the
  listener \<open>c\<close>, starts with an empty pool, receives a signal whose sender is \<open>c\<close>, and
  holds a link to \<open>c\<close> afterwards. The creation rule "local role is speaker or the
  remote role is speaker" does not hold of the signal handler.
\<close>

theorem listener_pair_linked:
  "myRole guest_render = Listener
   \<and> participants guest_render = [\<lparr> ap_profile_id = [0x62], role = Listener \<rparr>,
                                   \<lparr> ap_profile_id = [0x63], role = Listener \<rparr>]
   \<and> profileId guest_render = Some [0x62]
   \<and> peersRef session0 = []
   \<and> map_of (peersRef (on_signal quiet_env guest_render [0x63] ''offer'' session0)) [0x63]
       = Some \<lparr> p_handle = 0, p_initiator = False, p_remoteId = [0x63] \<rparr>"
  by (simp add: guest_render_def session0_def on_signal_def wired_def truthy_def createPeer_def
      record_call_def attach_if_speaker_def isInitiator_def)


text \<open>
  Claim C2, amended. The rule is the peer-plan effect's: in a render that knows the local
  id, the pool holds an entry for a remote id after the effect exactly when it held one
  before, or the id is that of a listed participant other than the local one and the local
  role is speaker or that participant's role is speaker. The signal handler, in contrast,
  adds an entry for any other sender, whatever the roles.
\<close>

theorem creation_policy:
  assumes "profileId r = Some me" and "me \<noteq> []"
  shows
  "(map_of (peersRef (peer_plan e r s)) rid \<noteq> None) =
     (map_of (peersRef s) rid \<noteq> None
      \<or> (rid \<noteq> me \<and> (\<exists>p \<in> set (participants r).
            ap_profile_id p = rid \<and> (myRole r = Speaker \<or> role p = Speaker))))
   \<and> (wired r \<and> frm \<noteq> me \<longrightarrow> map_of (peersRef (on_signal e r frm data s)) frm \<noteq> None)"
proof (intro conjI impI)
  show "(map_of (peersRef (peer_plan e r s)) rid \<noteq> None) =
     (map_of (peersRef s) rid \<noteq> None
      \<or> (rid \<noteq> me \<and> (\<exists>p \<in> set (participants r).
            ap_profile_id p = rid \<and> (myRole r = Speaker \<or> role p = Speaker))))"
    unfolding has_entry peer_plan_keys [OF assms]
    by (auto simp add: plan_candidates_def)
next
  assume "wired r \<and> frm \<noteq> me"
  then show "map_of (peersRef (on_signal e r frm data s)) frm \<noteq> None"
    using assms(1) by (simp add: on_signal_entry)
qed

theorem creation_policy_witness:
  "profileId guest_render = Some [0x62] \<and> wired guest_render
   \<and> map_of (peersRef (peer_plan quiet_env guest_render session0)) [0x63] = None
   \<and> map_of (peersRef (peer_plan quiet_env (guest_render\<lparr>myRole := Speaker\<rparr>) session0)) [0x63]
       = Some \<lparr> p_handle = 0, p_initiator = True, p_remoteId = [0x63] \<rparr>
   \<and> map_of (peersRef (on_signal quiet_env guest_render [0x63] ''offer'' session0)) [0x63]
       \<noteq> None"
proof -
  have a: "profileId guest_render = Some [0x62]" "[0x62] \<noteq> ([] :: jsstring)"
    by (simp_all add: guest_render_def)
  have w: "wired guest_render" by (simp add: guest_render_def wired_def truthy_def)
  have b: "map_of (peersRef session0) [0x63] = None" by (simp add: session0_def)
  have c: "myRole guest_render = Listener"
    "participants guest_render = [\<lparr> ap_profile_id = [0x62], role = Listener \<rparr>,
                     \<lparr> ap_profile_id = [0x63], role = Listener \<rparr>]"
    by (simp_all add: guest_render_def)
  have d: "map_of (peersRef (peer_plan quiet_env (guest_render\<lparr>myRole := Speaker\<rparr>) session0)) [0x63]
       = Some \<lparr> p_handle = 0, p_initiator = True, p_remoteId = [0x63] \<rparr>"
    by (simp add: peer_plan_def plan_candidates_def plan_peer_def createPeer_def
        attach_if_speaker_def record_call_def guest_render_def session0_def isInitiator_def
        Let_def)
  show ?thesis
    using a w b c d
      creation_policy [OF a, of quiet_env session0 "[0x63]" "[0x63]" "''offer''"]
    by simp
qed

section \<open>Joining and the role toggles\<close>

text \<open>
  Claim C6 fails as stated. The owner joins: the initial role is listener, and when the subscription is confirmed,
  with no toggle made, the role is speaker and the active flag has been written true.
\<close>

theorem owner_joins_as_speaker:
  "st_myRole session0 = Listener
   \<and> isOwner owner_render
   \<and> st_myRole (on_subscribe quiet_env owner_render 0 SUBSCRIBED []
        (wiring_effect owner_render session0)) = Speaker
   \<and> calls (on_subscribe quiet_env owner_render 0 SUBSCRIBED []
        (wiring_effect owner_render session0)) =
       [ChannelNew 0 (Some [0x70]) (Some [0x61]), ChannelSubscribe 0, ChannelTrack 0 Speaker,
        PostsUpdate True (Some [0x70]) (Some [0x61])]"
  by (simp add: session0_def owner_render_def isOwner_def truthy_def wired_def wiring_effect_def
      on_subscribe_def on_subscribe_begin_def on_subscribe_resume_def initial_role_def
      setRoomActive_eq record_call_def quiet_env_def Let_def)

text \<open>
  Claim C6, amended. When the subscription of a participant is confirmed and the channel
  holds no presence of their own yet, the role is set to speaker for the room owner and to
  listener for anyone else, and that role is announced with \<^verbatim>\<open>track\<close>; once
  that call resolves, the active flag is written true for the owner right then, without
  a toggle, unless this session has written it before, and nothing is written for anyone
  else.
\<close>

theorem join_role:
  assumes "wired r" and "profileId r = Some me" and "map_of st me = None"
  shows
  "st_myRole (on_subscribe e r ch SUBSCRIBED st s) = (if isOwner r then Speaker else Listener)
   \<and> (\<not> throws e (ChannelTrack ch (if isOwner r then Speaker else Listener)) \<longrightarrow>
        calls (on_subscribe e r ch SUBSCRIBED st s) =
          calls s @ [ChannelTrack ch (if isOwner r then Speaker else Listener)]
          @ (if isOwner r \<and> \<not> madeActiveOnceRef s
             then [PostsUpdate True (postId r) (postOwnerId r)] else []))"
  using assms
  by (simp add: on_subscribe_def on_subscribe_begin_def on_subscribe_resume_def initial_role_def
      setRoomActive_eq record_call_def)

theorem join_role_witness:
  "wired guest_render \<and> profileId guest_render = Some [0x62]
   \<and> \<not> throws quiet_env (ChannelTrack 0 Listener)
   \<and> \<not> throws quiet_env (ChannelTrack 0 Speaker)
   \<and> st_myRole (on_subscribe quiet_env guest_render 0 SUBSCRIBED [([0x61], Speaker)] session0)
       = Listener
   \<and> calls (on_subscribe quiet_env guest_render 0 SUBSCRIBED [([0x61], Speaker)] session0)
       = [ChannelTrack 0 Listener]
   \<and> st_myRole (on_subscribe quiet_env owner_render 0 SUBSCRIBED [] session0) = Speaker
   \<and> calls (on_subscribe quiet_env owner_render 0 SUBSCRIBED [] session0)
       = [ChannelTrack 0 Speaker, PostsUpdate True (Some [0x70]) (Some [0x61])]"
proof -
  have g: "wired guest_render" "profileId guest_render = Some [0x62]"
    "map_of [([0x61 :: 16 word], Speaker)] [0x62] = None"
    by (simp_all add: guest_render_def wired_def truthy_def)
  have o: "wired owner_render" "profileId owner_render = Some [0x61]"
    "map_of ([] :: presence) [0x61] = None"
    by (simp_all add: owner_render_def wired_def truthy_def)
  have f: "\<not> isOwner guest_render" "isOwner owner_render" "calls session0 = []"
    "\<not> madeActiveOnceRef session0" "postId owner_render = Some [0x70]"
    "postOwnerId owner_render = Some [0x61]"
    by (simp_all add: guest_render_def owner_render_def isOwner_def truthy_def session0_def)
  have q: "\<not> throws quiet_env (ChannelTrack 0 Listener)"
    "\<not> throws quiet_env (ChannelTrack 0 Speaker)"
    by (simp_all add: quiet_env_def)
  show ?thesis
    using g(1,2) f q join_role [OF g, of quiet_env 0 session0]
      join_role [OF o, of quiet_env 0 session0]
    by simp
qed

text \<open>
  Claim C7 fails as stated. A guest joins a room whose owner is already a speaker and asks to become a speaker: only
  the alert happens. And in a session whose activation flag is set and whose role is
  speaker, a guest render that toggles to listener cannot toggle back.
\<close>

theorem speaker_gate_after_activation:
  "\<not> isOwner guest_render
   \<and> st_myRole (on_subscribe quiet_env guest_render 0 SUBSCRIBED [([0x61], Speaker)]
        (wiring_effect guest_render session0)) = Listener
   \<and> becomeSpeaker quiet_env guest_render
        (on_subscribe quiet_env guest_render 0 SUBSCRIBED [([0x61], Speaker)]
          (wiring_effect guest_render session0))
       = record_call (Alert ''Only the post owner can start the audio room.'')
          (on_subscribe quiet_env guest_render 0 SUBSCRIBED [([0x61], Speaker)]
            (wiring_effect guest_render session0))
   \<and> madeActiveOnceRef busy_session
   \<and> st_myRole busy_session = Speaker
   \<and> st_myRole (becomeListener quiet_env guest_render busy_session) = Listener
   \<and> st_myRole (becomeSpeaker quiet_env guest_render
        (becomeListener quiet_env guest_render busy_session)) = Listener"
  by (simp add: guest_render_def busy_session_def session0_def isOwner_def truthy_def wired_def
      wiring_effect_def on_subscribe_def on_subscribe_begin_def on_subscribe_resume_def
      initial_role_def becomeSpeaker_def becomeSpeaker_begin_def becomeListener_def
      becomeListener_begin_def becomeListener_resume_def track_role_def track_rejects_def
      quiet_env_def record_call_def Let_def)

text \<open>
  Claim C7, amended. \<^verbatim>\<open>becomeSpeaker\<close> checks ownership on every call, whatever
  has happened before: for a render that is not the owner's it raises the alert and
  changes nothing else, for the owner's it sets the role to speaker.
  \<^verbatim>\<open>becomeListener\<close> sets the role to listener for every participant.
\<close>

theorem speaker_gate:
  "(\<not> isOwner r \<longrightarrow>
      becomeSpeaker e r s
        = record_call (Alert ''Only the post owner can start the audio room.'') s)
   \<and> (isOwner r \<longrightarrow> st_myRole (becomeSpeaker e r s) = Speaker)
   \<and> st_myRole (becomeListener e r s) = Listener"
  by (simp add: becomeSpeaker_def becomeSpeaker_begin_def becomeSpeaker_resume_def
      becomeListener_def becomeListener_begin_def becomeListener_resume_def track_role_def
      setRoomActive_eq record_call_def split: option.splits)

theorem speaker_gate_witness:
  "\<not> isOwner guest_render \<and> isOwner owner_render
   \<and> st_myRole (becomeSpeaker quiet_env guest_render session0) = Listener
   \<and> calls (becomeSpeaker quiet_env guest_render session0)
       = [Alert ''Only the post owner can start the audio room.'']
   \<and> st_myRole (becomeSpeaker quiet_env owner_render session0) = Speaker"
proof -
  have a: "\<not> isOwner guest_render" "isOwner owner_render"
    by (simp_all add: guest_render_def owner_render_def isOwner_def truthy_def)
  have b: "st_myRole session0 = Listener" "calls session0 = []"
    by (simp_all add: session0_def)
  show ?thesis
    using a b speaker_gate [of guest_render quiet_env session0]
      speaker_gate [of owner_render quiet_env session0]
    by (simp add: record_call_def)
qed

end
